theory Spec2Isabelle
  imports Main "HOL-Library.Sublist"
begin

section \<open>Data model\<close>

text \<open>
  The module \<^verbatim>\<open>routes/auth/__init__.py\<close> of the dispatcher backend holds the two token
  endpoints \<^verbatim>\<open>credentials\<close> (\<^verbatim>\<open>POST /auth/authorize\<close>) and \<^verbatim>\<open>refresh_token\<close>
  (\<^verbatim>\<open>POST /auth/token\<close>). Both run their body \<^verbatim>\<open>_..._inner(session)\<close> inside
  \<^verbatim>\<open>with Session.begin() as session\<close>.

  Instants (\<^verbatim>\<open>datetime\<close> values, as returned by \<^verbatim>\<open>getnow()\<close> and stored in
  \<^verbatim>\<open>Refreshtoken.expire_time\<close>) are points of a total order, taken as integers.
\<close>

type_synonym datetime = int

text \<open>The rows of \<^verbatim>\<open>dbm.User\<close> and \<^verbatim>\<open>dbm.Refreshtoken\<close>, with the columns this module reads.\<close>

record user =
  id_user :: int
  username :: string
  password_hash :: string

record refreshtoken =
  token :: string
  user_id :: int
  expire_time :: datetime

text \<open>The two tables as the session sees them; new rows are added at the end.\<close>

record db =
  users :: "user list"
  refreshtokens :: "refreshtoken list"

text \<open>
  The exceptions that can leave the two handlers: the two of \<^verbatim>\<open>routes.errors\<close> with their
  message, Python's \<^verbatim>\<open>TypeError\<close>, and SQLAlchemy's \<^verbatim>\<open>MultipleResultsFound\<close>, which
  \<^verbatim>\<open>scalar_one_or_none()\<close> raises when the query selects more than one row.
\<close>

datatype error =
    BadRequest string
  | Unauthorized string
  | TypeError
  | MultipleResultsFound

text \<open>
  What the handlers read of \<^verbatim>\<open>flask.request\<close>: \<^verbatim>\<open>request.content_type\<close> (\<^verbatim>\<open>None\<close> when
  the request has no Content-Type), \<^verbatim>\<open>request.form.get\<close> and \<^verbatim>\<open>request.headers.get\<close>
  (both \<^verbatim>\<open>None\<close> for a name that is not there).
\<close>

record request =
  content_type :: "string option"
  form :: "string \<rightharpoonup> string"
  headers :: "string \<rightharpoonup> string"

text \<open>The JSON values of the response body, and the response: the dict given to
  \<^verbatim>\<open>jsonify\<close>, in the order of its keys, and the headers.\<close>

datatype json = JString string | JInt int

record response =
  json_body :: "(string \<times> json) list"
  response_headers :: "string \<rightharpoonup> string"

text \<open>
  The collaborators whose code is in other modules: \<^verbatim>\<open>werkzeug\<close>'s
  \<^verbatim>\<open>check_password_hash(pwhash, password)\<close>, \<^verbatim>\<open>AccessToken.encode_db\<close> and
  \<^verbatim>\<open>AccessToken.get_expiry\<close> of \<^verbatim>\<open>utils.token\<close> (a string and, following the envelope of
  the specification, an integer number of seconds), and the time to live that
  \<^verbatim>\<open>OAuth2.generate_refresh_token\<close> gives a new refresh token. They are parameters.
\<close>

record collaborators =
  check_password_hash :: "string \<Rightarrow> string \<Rightarrow> bool"
  encode_db :: "user \<Rightarrow> string"
  get_expiry :: "string \<Rightarrow> int"
  refresh_ttl :: int

text \<open>
  What one call takes from outside the program: the clock read by \<^verbatim>\<open>getnow()\<close> at the
  expiry check (line 96), inside \<^verbatim>\<open>generate_refresh_token\<close>, and in the bulk delete
  (line 113), and the random string drawn for the new refresh token.
\<close>

record outside =
  now_check :: datetime
  now_issue :: datetime
  now_gc :: datetime
  drawn_token :: string

section \<open>Operations\<close>

text \<open>\<^verbatim>\<open>Result.scalar_one_or_none()\<close> on the rows a \<^verbatim>\<open>select\<close> returns.\<close>

fun scalar_one_or_none :: "'a list \<Rightarrow> error + 'a option" where
  "scalar_one_or_none [] = Inr None"
| "scalar_one_or_none [x] = Inr (Some x)"
| "scalar_one_or_none (x # y # zs) = Inl MultipleResultsFound"

text \<open>
  Modelled from the spec: \<^verbatim>\<open>OAuth2.generate_refresh_token(user_id, session)\<close>, defined in
  \<^verbatim>\<open>routes/auth/oauth2.py\<close>, which is not among the sources. The specification's
  \<^verbatim>\<open>issue(user_id)\<close>: it "generates a cryptographically random, sufficiently long opaque
  string, computes an expire time (fixed TTL from now), persists the row, returns the
  string". The random string and the clock come from \<^typ>\<open>outside\<close>.
\<close>

definition generate_refresh_token ::
  "collaborators \<Rightarrow> outside \<Rightarrow> int \<Rightarrow> db \<Rightarrow> string \<times> db" where
  "generate_refresh_token c w uid s =
     (drawn_token w,
      s\<lparr>refreshtokens := refreshtokens s @
           [\<lparr>token = drawn_token w, user_id = uid,
             expire_time = now_issue w + refresh_ttl c\<rparr>]\<rparr>)"

text \<open>
  Lines 58--67 and 117--126, the same in both handlers: the dict, \<^verbatim>\<open>jsonify\<close> (which
  answers with the content type \<^verbatim>\<open>application/json\<close>), and the two headers set on the
  response.
\<close>

definition jsonify :: "(string \<times> json) list \<Rightarrow> response" where
  "jsonify d =
     \<lparr>json_body = d, response_headers = [''Content-Type'' \<mapsto> ''application/json'']\<rparr>"

definition send_response :: "string \<Rightarrow> int \<Rightarrow> string \<Rightarrow> response" where
  "send_response access_token access_expires refresh_token' =
     (let response_json =
            [(''access_token'', JString access_token),
             (''token_type'', JString ''bearer''),
             (''expires_in'', JInt access_expires),
             (''refresh_token'', JString refresh_token')];
          response = jsonify response_json;
          response = response\<lparr>response_headers :=
                        (response_headers response)(''Cache-Control'' \<mapsto> ''no-store'')\<rparr>;
          response = response\<lparr>response_headers :=
                        (response_headers response)(''Pragma'' \<mapsto> ''no-cache'')\<rparr>
      in response)"

text \<open>
  Lines 31--36 of \<^verbatim>\<open>_credentials_inner\<close>: where username and password are read.
  \<^verbatim>\<open>"application/x-www-form-urlencoded" in request.content_type\<close> is Python's substring
  test on a string, and a \<^verbatim>\<open>TypeError\<close> when \<^verbatim>\<open>request.content_type\<close> is \<^verbatim>\<open>None\<close>.
\<close>

definition get_username_password ::
  "request \<Rightarrow> error + (string option \<times> string option)" where
  "get_username_password rq =
     (case content_type rq of
        None \<Rightarrow> Inl TypeError
      | Some ct \<Rightarrow>
          if sublist ''application/x-www-form-urlencoded'' ct
          then Inr (form rq ''username'', form rq ''password'')
          else Inr (headers rq ''username'', headers rq ''password''))"

text \<open>
  \<^verbatim>\<open>_credentials_inner(session)\<close>. The result is the exception raised or the response
  returned, with the state of the session when the function is left.
\<close>

definition credentials_inner ::
  "collaborators \<Rightarrow> outside \<Rightarrow> request \<Rightarrow> db \<Rightarrow> (error + response) \<times> db" where
  "credentials_inner c w rq s =
     (case get_username_password rq of
        Inl e \<Rightarrow> (Inl e, s)
      | Inr (username', password') \<Rightarrow>
          (case (username', password') of
             (Some username'', Some password'') \<Rightarrow>
               (case scalar_one_or_none
                       (filter (\<lambda>u. username u = username'') (users s)) of
                  Inl e \<Rightarrow> (Inl e, s)
                | Inr None \<Rightarrow> (Inl (Unauthorized ''this user does not exist''), s)
                | Inr (Some orm_user) \<Rightarrow>
                    if \<not> check_password_hash c (password_hash orm_user) password''
                    then (Inl (Unauthorized ''password does not match''), s)
                    else
                      (let access_token = encode_db c orm_user;
                           access_expires = get_expiry c access_token;
                           (refresh_token', s1) =
                              generate_refresh_token c w (id_user orm_user) s
                       in (Inr (send_response access_token access_expires refresh_token'),
                           s1)))
           | _ \<Rightarrow> (Inl (BadRequest ''missing username or password''), s)))"

text \<open>
  \<^verbatim>\<open>with Session.begin() as session\<close>: the block's writes are committed when it ends, and
  rolled back when an exception leaves it.
\<close>

definition session_begin ::
  "(db \<Rightarrow> (error + response) \<times> db) \<Rightarrow> db \<Rightarrow> (error + response) \<times> db" where
  "session_begin body s =
     (case body s of
        (Inl e, s') \<Rightarrow> (Inl e, s)
      | (Inr res, s') \<Rightarrow> (Inr res, s'))"

definition credentials ::
  "collaborators \<Rightarrow> outside \<Rightarrow> request \<Rightarrow> db \<Rightarrow> (error + response) \<times> db" where
  "credentials c w rq s = session_begin (credentials_inner c w rq) s"

text \<open>
  \<^verbatim>\<open>_refresh_token_inner(session)\<close>. \<^verbatim>\<open>session.delete(old_token_document)\<close> deletes the
  row that was selected; the bulk delete of line 112 then removes every row whose
  \<^verbatim>\<open>expire_time\<close> is before \<^verbatim>\<open>getnow()\<close>, the new row and the old one being flushed by then.
\<close>

definition refresh_token_inner ::
  "collaborators \<Rightarrow> outside \<Rightarrow> request \<Rightarrow> db \<Rightarrow> (error + response) \<times> db" where
  "refresh_token_inner c w rq s =
     (case headers rq ''refresh-token'' of
        None \<Rightarrow> (Inl (BadRequest ''missing refresh-token''), s)
      | Some old_token \<Rightarrow>
          (case scalar_one_or_none
                  (filter (\<lambda>r. token r = old_token) (refreshtokens s)) of
             Inl e \<Rightarrow> (Inl e, s)
           | Inr None \<Rightarrow> (Inl (Unauthorized ''refresh-token invalid''), s)
           | Inr (Some old_token_document) \<Rightarrow>
               if expire_time old_token_document < now_check w
               then (Inl (Unauthorized ''token expired''), s)
               else
                 (case scalar_one_or_none
                         (filter (\<lambda>u. id_user u = user_id old_token_document) (users s)) of
                    Inl e \<Rightarrow> (Inl e, s)
                  | Inr None \<Rightarrow> (Inl (Unauthorized ''user not found''), s)
                  | Inr (Some orm_user) \<Rightarrow>
                      (let access_token = encode_db c orm_user;
                           (refresh_token', s1) =
                              generate_refresh_token c w (id_user orm_user) s;
                           s2 = s1\<lparr>refreshtokens :=
                                   remove1 old_token_document (refreshtokens s1)\<rparr>;
                           s3 = s2\<lparr>refreshtokens :=
                                   filter (\<lambda>r. \<not> expire_time r < now_gc w)
                                     (refreshtokens s2)\<rparr>
                       in (Inr (send_response access_token
                                  (get_expiry c access_token) refresh_token'),
                           s3)))))"

definition refresh_token ::
  "collaborators \<Rightarrow> outside \<Rightarrow> request \<Rightarrow> db \<Rightarrow> (error + response) \<times> db" where
  "refresh_token c w rq s = session_begin (refresh_token_inner c w rq) s"

section \<open>Concrete data for the examples\<close>

definition alice :: user where
  "alice = \<lparr>id_user = 7, username = ''alice'', password_hash = ''hash-of-secret123''\<rparr>"

definition R1 :: refreshtoken where
  "R1 = \<lparr>token = ''R1'', user_id = 7, expire_time = 100\<rparr>"

definition db0 :: db where
  "db0 = \<lparr>users = [alice], refreshtokens = [R1]\<rparr>"

definition collab0 :: collaborators where
  "collab0 =
     \<lparr>check_password_hash = (\<lambda>h p. h = ''hash-of-'' @ p),
      encode_db = (\<lambda>u. ''jwt-'' @ username u),
      get_expiry = (\<lambda>t. 3600),
      refresh_ttl = 1000\<rparr>"

definition outside_at :: "datetime \<Rightarrow> string \<Rightarrow> outside" where
  "outside_at t tok = \<lparr>now_check = t, now_issue = t, now_gc = t, drawn_token = tok\<rparr>"

definition request_with :: "string option \<Rightarrow> (string \<rightharpoonup> string) \<Rightarrow> (string \<rightharpoonup> string) \<Rightarrow> request" where
  "request_with ct f h = \<lparr>content_type = ct, form = f, headers = h\<rparr>"

section \<open>Lemmas on the queries and on the transaction\<close>

lemmas example_defs =
  alice_def R1_def db0_def collab0_def outside_at_def request_with_def

lemmas handler_defs =
  refresh_token_def credentials_def session_begin_def refresh_token_inner_def
  credentials_inner_def get_username_password_def generate_refresh_token_def
  send_response_def jsonify_def

lemma select_none:
  "k \<notin> f ` set xs \<Longrightarrow> filter (\<lambda>y. f y = k) xs = []"
  by (induction xs) auto

lemma select_unique:
  "distinct (map f xs) \<Longrightarrow> x \<in> set xs \<Longrightarrow> filter (\<lambda>y. f y = f x) xs = [x]"
proof (induction xs)
  case Nil then show ?case by simp
next
  case (Cons a xs)
  show ?case
  proof (cases "a = x")
    case True
    with Cons.prems have "f x \<notin> f ` set xs" by simp
    then have "filter (\<lambda>y. f y = f x) xs = []" by (rule select_none)
    with True show ?thesis by simp
  next
    case False
    with Cons.prems have xin: "x \<in> set xs" and d: "distinct (map f xs)" by auto
    from xin Cons.prems have "f a \<noteq> f x" by force
    with Cons.IH[OF d xin] show ?thesis by simp
  qed
qed

lemma scalar_one_or_none_Some:
  "scalar_one_or_none xs = Inr (Some x) \<Longrightarrow> xs = [x]"
  by (cases xs rule: scalar_one_or_none.cases) auto

lemma refresh_token_inner_raise:
  "fst (refresh_token_inner c w rq s) = Inl e \<Longrightarrow> snd (refresh_token_inner c w rq s) = s"
  by (auto simp: refresh_token_inner_def Let_def split: option.splits sum.splits if_splits prod.splits)

lemma credentials_inner_raise:
  "fst (credentials_inner c w rq s) = Inl e \<Longrightarrow> snd (credentials_inner c w rq s) = s"
  by (auto simp: credentials_inner_def Let_def split: option.splits sum.splits if_splits prod.splits)

lemma refresh_token_inner_success:
  assumes "headers rq ''refresh-token'' = Some T"
    and "filter (\<lambda>r. token r = T) (refreshtokens s) = [d]"
    and "\<not> expire_time d < now_check w"
    and "filter (\<lambda>u. id_user u = user_id d) (users s) = [u]"
  shows "refresh_token_inner c w rq s =
     (Inr (send_response (encode_db c u) (get_expiry c (encode_db c u)) (drawn_token w)),
      s\<lparr>refreshtokens := filter (\<lambda>r. \<not> expire_time r < now_gc w)
          (remove1 d (refreshtokens s @
             [\<lparr>token = drawn_token w, user_id = id_user u,
               expire_time = now_issue w + refresh_ttl c\<rparr>]))\<rparr>)"
  using assms by (simp add: refresh_token_inner_def generate_refresh_token_def Let_def)

lemma refresh_token_inner_Inr:
  assumes "refresh_token_inner c w rq s = (Inr resp, s')"
  shows "\<exists>T d u. headers rq ''refresh-token'' = Some T
     \<and> filter (\<lambda>r. token r = T) (refreshtokens s) = [d]
     \<and> \<not> expire_time d < now_check w
     \<and> filter (\<lambda>u. id_user u = user_id d) (users s) = [u]"
  using assms
  by (auto simp: refresh_token_inner_def Let_def split: option.splits sum.splits if_splits prod.splits dest!: scalar_one_or_none_Some)


lemma refresh_token_raise:
  "fst (refresh_token c w rq s) = Inl e \<Longrightarrow> snd (refresh_token c w rq s) = s"
  by (auto simp: refresh_token_def session_begin_def split: prod.splits sum.splits)


lemma refresh_token_Inr:
  "refresh_token c w rq s = (Inr resp, s') \<Longrightarrow> refresh_token_inner c w rq s = (Inr resp, s')"
  by (auto simp: refresh_token_def session_begin_def split: prod.splits sum.splits)




lemma scalar_one_or_none_Inl:
  "scalar_one_or_none xs = Inl e \<Longrightarrow> e = MultipleResultsFound"
  by (cases xs rule: scalar_one_or_none.cases) auto

lemma refresh_token_success_state:
  assumes "refresh_token c w rq s = (Inr resp, s')"
  shows "\<exists>d u. s' = s\<lparr>refreshtokens := filter (\<lambda>r. \<not> expire_time r < now_gc w)
            (remove1 d (refreshtokens s @
               [\<lparr>token = drawn_token w, user_id = id_user u,
                 expire_time = now_issue w + refresh_ttl c\<rparr>]))\<rparr>
         \<and> resp = send_response (encode_db c u) (get_expiry c (encode_db c u)) (drawn_token w)
         \<and> d \<in> set (refreshtokens s)"
proof -
  from assms have inner: "refresh_token_inner c w rq s = (Inr resp, s')"
    by (rule refresh_token_Inr)
  from refresh_token_inner_Inr[OF inner] obtain T d u where
    h: "headers rq ''refresh-token'' = Some T"
       "filter (\<lambda>r. token r = T) (refreshtokens s) = [d]"
       "\<not> expire_time d < now_check w"
       "filter (\<lambda>u. id_user u = user_id d) (users s) = [u]"
    by blast
  have "d \<in> set (filter (\<lambda>r. token r = T) (refreshtokens s))" using h(2) by simp
  then have "d \<in> set (refreshtokens s)" by simp
  with refresh_token_inner_success[OF h, of c] inner show ?thesis by auto
qed

section \<open>Refresh exchange: rotation and expiry\<close>







section \<open>Refresh exchange: failure paths\<close>

text \<open>
  C5. Whenever the refresh exchange fails, the storage after the call is the storage
  before it. The session itself holds no write at the moment of the raise (every raise
  of \<^verbatim>\<open>_refresh_token_inner\<close> comes before its first write), and \<^verbatim>\<open>Session.begin()\<close>
  rolls back in any case. The failures are the four of the handler, and
  \<^verbatim>\<open>MultipleResultsFound\<close> from a lookup that selects several rows.
\<close>
theorem refresh_failure_leaves_storage:
  assumes "fst (refresh_token c w rq s) = Inl e"
  shows "snd (refresh_token c w rq s) = s
       \<and> snd (refresh_token_inner c w rq s) = s
       \<and> e \<in> {BadRequest ''missing refresh-token'', Unauthorized ''refresh-token invalid'',
              Unauthorized ''token expired'', Unauthorized ''user not found'',
              MultipleResultsFound}"
proof -
  from assms have inner: "fst (refresh_token_inner c w rq s) = Inl e"
    by (auto simp: refresh_token_def session_begin_def split: prod.splits sum.splits)
  have kinds: "e \<in> {BadRequest ''missing refresh-token'', Unauthorized ''refresh-token invalid'',
              Unauthorized ''token expired'', Unauthorized ''user not found'',
              MultipleResultsFound}"
    using inner
    by (auto simp: refresh_token_inner_def Let_def
        split: option.splits sum.splits if_splits prod.splits
        elim: scalar_one_or_none.elims)
  show ?thesis
    using refresh_token_raise[OF assms] refresh_token_inner_raise[OF inner] kinds by simp
qed

theorem refresh_failure_leaves_storage_witness:
  "fst (refresh_token collab0 (outside_at 50 ''R2'') (request_with None Map.empty Map.empty) db0)
     = Inl (BadRequest ''missing refresh-token'')
   \<and> snd (refresh_token collab0 (outside_at 50 ''R2'') (request_with None Map.empty Map.empty) db0)
     = db0
   \<and> snd (refresh_token_inner collab0 (outside_at 50 ''R2'')
        (request_with None Map.empty Map.empty) db0) = db0"
proof -
  have h: "fst (refresh_token collab0 (outside_at 50 ''R2'')
       (request_with None Map.empty Map.empty) db0) = Inl (BadRequest ''missing refresh-token'')"
    by (simp add: example_defs handler_defs)
  from refresh_failure_leaves_storage[OF h] show ?thesis using h by simp
qed

section \<open>Refresh exchange: consumption and issuance in one transaction\<close>



section \<open>Garbage collection\<close>




text \<open>
  C9. When the refresh exchange rejects the presented token as expired, the row of that
  token is still stored after the call (its expire time being before the clock of the
  check); any later refresh exchange that succeeds, its bulk delete reading a clock not
  earlier than that check, leaves the row absent.
\<close>
theorem expired_row_kept_until_later_exchange:
  assumes run: "refresh_token c w rq s = (Inl (Unauthorized ''token expired''), s')"
    and hdr: "headers rq ''refresh-token'' = Some T"
    and row: "d \<in> set (refreshtokens s)" "token d = T"
  shows "d \<in> set (refreshtokens s')
       \<and> expire_time d < now_check w
       \<and> (\<forall>c2 w2 rq2 resp2 s2. now_check w \<le> now_gc w2
            \<and> refresh_token c2 w2 rq2 s' = (Inr resp2, s2)
            \<longrightarrow> d \<notin> set (refreshtokens s2))"
proof -
  from run have "fst (refresh_token c w rq s) = Inl (Unauthorized ''token expired'')" by simp
  from refresh_token_raise[OF this] run have same: "s' = s" by simp
  from run have inner: "fst (refresh_token_inner c w rq s) = Inl (Unauthorized ''token expired'')"
    by (auto simp: refresh_token_def session_begin_def split: prod.splits sum.splits)
  have "\<exists>d'. filter (\<lambda>r. token r = T) (refreshtokens s) = [d'] \<and> expire_time d' < now_check w"
    using inner hdr
    by (auto simp: refresh_token_inner_def Let_def
        split: option.splits sum.splits if_splits prod.splits
        dest!: scalar_one_or_none_Some scalar_one_or_none_Inl)
  then obtain d' where d': "filter (\<lambda>r. token r = T) (refreshtokens s) = [d']"
    "expire_time d' < now_check w" by blast
  from row have "d \<in> set (filter (\<lambda>r. token r = T) (refreshtokens s))" by simp
  with d' have past: "expire_time d < now_check w" by simp
  have later: "d \<notin> set (refreshtokens s2)"
    if "now_check w \<le> now_gc w2" "refresh_token c2 w2 rq2 s' = (Inr resp2, s2)"
    for c2 w2 rq2 resp2 s2
    using refresh_token_success_state[OF that(2)] past that(1) by auto
  show ?thesis using same row(1) past later by blast
qed


theorem expired_row_kept_until_later_exchange_witness:
  "refresh_token collab0 (outside_at 101 ''R2'')
       (request_with None Map.empty [''refresh-token'' \<mapsto> ''R1''])
       (db0\<lparr>refreshtokens := [R1, \<lparr>token = ''R9'', user_id = 7, expire_time = 900\<rparr>]\<rparr>)
     = (Inl (Unauthorized ''token expired''),
        db0\<lparr>refreshtokens := [R1, \<lparr>token = ''R9'', user_id = 7, expire_time = 900\<rparr>]\<rparr>)
   \<and> headers (request_with None Map.empty [''refresh-token'' \<mapsto> ''R1'']) ''refresh-token''
      = Some ''R1''
   \<and> R1 \<in> set (refreshtokens
        (db0\<lparr>refreshtokens := [R1, \<lparr>token = ''R9'', user_id = 7, expire_time = 900\<rparr>]\<rparr>))
   \<and> token R1 = ''R1''
   \<and> now_check (outside_at 101 ''R2'') \<le> now_gc (outside_at 102 ''R3'')
   \<and> refresh_token collab0 (outside_at 102 ''R3'')
       (request_with None Map.empty [''refresh-token'' \<mapsto> ''R9''])
       (db0\<lparr>refreshtokens := [R1, \<lparr>token = ''R9'', user_id = 7, expire_time = 900\<rparr>]\<rparr>)
     = (Inr (send_response ''jwt-alice'' 3600 ''R3''),
        \<lparr>users = [alice],
         refreshtokens = [\<lparr>token = ''R3'', user_id = 7, expire_time = 1102\<rparr>]\<rparr>)
   \<and> R1 \<notin> set [\<lparr>token = ''R3'', user_id = 7, expire_time = (1102::int)\<rparr>]"
proof -
  let ?s = "db0\<lparr>refreshtokens := [R1, \<lparr>token = ''R9'', user_id = 7, expire_time = 900\<rparr>]\<rparr>"
  let ?rq = "request_with None Map.empty [''refresh-token'' \<mapsto> ''R1'']"
  let ?rq2 = "request_with None Map.empty [''refresh-token'' \<mapsto> ''R9'']"
  let ?s2 = "\<lparr>users = [alice],
         refreshtokens = [\<lparr>token = ''R3'', user_id = 7, expire_time = 1102\<rparr>]\<rparr>"
  have h1: "refresh_token collab0 (outside_at 101 ''R2'') ?rq ?s
             = (Inl (Unauthorized ''token expired''), ?s)"
    by (simp add: example_defs handler_defs)
  have h2: "headers ?rq ''refresh-token'' = Some ''R1''" by (simp add: example_defs)
  have h3: "R1 \<in> set (refreshtokens ?s)" by simp
  have h4: "token R1 = ''R1''" by (simp add: example_defs)
  have h5: "now_check (outside_at 101 ''R2'') \<le> now_gc (outside_at 102 ''R3'')"
    by (simp add: example_defs)
  have h6: "refresh_token collab0 (outside_at 102 ''R3'') ?rq2 ?s
             = (Inr (send_response ''jwt-alice'' 3600 ''R3''), ?s2)"
    by (simp add: example_defs handler_defs)
  from expired_row_kept_until_later_exchange[OF h1 h2 h3 h4] h5 h6
  have "R1 \<notin> set (refreshtokens ?s2)" by blast
  then show ?thesis using h1 h2 h3 h4 h5 h6 by simp
qed

lemma credentials_raise:
  "fst (credentials c w rq s) = Inl e \<Longrightarrow> snd (credentials c w rq s) = s"
  by (auto simp: credentials_def session_begin_def split: prod.splits sum.splits)

lemma credentials_of_inner_raise:
  "credentials_inner c w rq s = (Inl e, s') \<Longrightarrow> credentials c w rq s = (Inl e, s)"
  by (simp add: credentials_def session_begin_def)

section \<open>Credential exchange\<close>

text \<open>
  C7 as stated fails twice. With no stored user of the given username the message of
  line 45 is \<^verbatim>\<open>"this user does not exist"\<close>, not \<^verbatim>\<open>"user does not exist"\<close>. And a request
  with no Content-Type and no username fails with \<^verbatim>\<open>TypeError\<close> at line 31, before the
  test of line 37, not with \<^verbatim>\<open>BadRequest\<close>.
\<close>
theorem credentials_message_counterexample:
  "''bob'' \<notin> username ` set (users db0)
   \<and> fst (credentials collab0 (outside_at 50 ''R2'')
        (request_with (Some ''application/x-www-form-urlencoded'')
           [''username'' \<mapsto> ''bob'', ''password'' \<mapsto> ''secret123''] Map.empty) db0)
      = Inl (Unauthorized ''this user does not exist'')
   \<and> Unauthorized ''this user does not exist'' \<noteq> Unauthorized ''user does not exist''
   \<and> form (request_with None Map.empty Map.empty) ''username'' = None
   \<and> headers (request_with None Map.empty Map.empty) ''username'' = None
   \<and> fst (credentials collab0 (outside_at 50 ''R2'')
        (request_with None Map.empty Map.empty) db0) = Inl TypeError
   \<and> TypeError \<noteq> BadRequest ''missing username or password''"
  by (simp add: example_defs handler_defs sublist_code)

text \<open>
  C7, amended. For a request that has a Content-Type, \<open>un\<close> and \<open>pw\<close> being the username
  and password read from the place it selects: the credential exchange fails with
  \<^verbatim>\<open>BadRequest("missing username or password")\<close> when either is absent; with
  \<^verbatim>\<open>Unauthorized("this user does not exist")\<close> when no stored user has the username;
  and with \<^verbatim>\<open>Unauthorized("password does not match")\<close> when the user exists (usernames
  being unique) and the password does not verify against the stored hash. Storage is
  unchanged each time.
\<close>

theorem credentials_failures:
  assumes src: "get_username_password rq = Inr (un, pw)"
  shows "(un = None \<or> pw = None \<longrightarrow>
            credentials c w rq s = (Inl (BadRequest ''missing username or password''), s))
       \<and> (un = Some name \<and> pw = Some p \<and> name \<notin> username ` set (users s) \<longrightarrow>
            credentials c w rq s = (Inl (Unauthorized ''this user does not exist''), s))
       \<and> (un = Some name \<and> pw = Some p \<and> u \<in> set (users s) \<and> username u = name
            \<and> distinct (map username (users s))
            \<and> \<not> check_password_hash c (password_hash u) p \<longrightarrow>
            credentials c w rq s = (Inl (Unauthorized ''password does not match''), s))"
proof (intro conjI impI)
  assume "un = None \<or> pw = None"
  then have "credentials_inner c w rq s = (Inl (BadRequest ''missing username or password''), s)"
    using src by (auto simp: credentials_inner_def split: option.splits)
  then show "credentials c w rq s = (Inl (BadRequest ''missing username or password''), s)"
    by (rule credentials_of_inner_raise)
next
  assume a: "un = Some name \<and> pw = Some p \<and> name \<notin> username ` set (users s)"
  then have "filter (\<lambda>x. username x = name) (users s) = []" by (simp add: select_none)
  with a src have "credentials_inner c w rq s = (Inl (Unauthorized ''this user does not exist''), s)"
    by (simp add: credentials_inner_def)
  then show "credentials c w rq s = (Inl (Unauthorized ''this user does not exist''), s)"
    by (rule credentials_of_inner_raise)
next
  assume a: "un = Some name \<and> pw = Some p \<and> u \<in> set (users s) \<and> username u = name
            \<and> distinct (map username (users s))
            \<and> \<not> check_password_hash c (password_hash u) p"
  then have "filter (\<lambda>x. username x = username u) (users s) = [u]"
    by (intro select_unique) simp_all
  with a src have "credentials_inner c w rq s = (Inl (Unauthorized ''password does not match''), s)"
    by (auto simp: credentials_inner_def)
  then show "credentials c w rq s = (Inl (Unauthorized ''password does not match''), s)"
    by (rule credentials_of_inner_raise)
qed

theorem credentials_failures_witness:
  "get_username_password (request_with (Some ''application/x-www-form-urlencoded'')
       [''username'' \<mapsto> ''alice''] Map.empty) = Inr (Some ''alice'', None)
   \<and> credentials collab0 (outside_at 50 ''R2'')
        (request_with (Some ''application/x-www-form-urlencoded'')
           [''username'' \<mapsto> ''alice''] Map.empty) db0
      = (Inl (BadRequest ''missing username or password''), db0)
   \<and> get_username_password (request_with (Some ''text/plain'') Map.empty
        [''username'' \<mapsto> ''bob'', ''password'' \<mapsto> ''secret123''])
      = Inr (Some ''bob'', Some ''secret123'')
   \<and> ''bob'' \<notin> username ` set (users db0)
   \<and> credentials collab0 (outside_at 50 ''R2'')
        (request_with (Some ''text/plain'') Map.empty
           [''username'' \<mapsto> ''bob'', ''password'' \<mapsto> ''secret123'']) db0
      = (Inl (Unauthorized ''this user does not exist''), db0)
   \<and> get_username_password (request_with (Some ''text/plain'') Map.empty
        [''username'' \<mapsto> ''alice'', ''password'' \<mapsto> ''wrong''])
      = Inr (Some ''alice'', Some ''wrong'')
   \<and> alice \<in> set (users db0) \<and> username alice = ''alice''
   \<and> distinct (map username (users db0))
   \<and> \<not> check_password_hash collab0 (password_hash alice) ''wrong''
   \<and> credentials collab0 (outside_at 50 ''R2'')
        (request_with (Some ''text/plain'') Map.empty
           [''username'' \<mapsto> ''alice'', ''password'' \<mapsto> ''wrong'']) db0
      = (Inl (Unauthorized ''password does not match''), db0)"
proof -
  let ?rq1 = "request_with (Some ''application/x-www-form-urlencoded'')
       [''username'' \<mapsto> ''alice''] Map.empty"
  let ?rq2 = "request_with (Some ''text/plain'') Map.empty
        [''username'' \<mapsto> ''bob'', ''password'' \<mapsto> ''secret123'']"
  let ?rq3 = "request_with (Some ''text/plain'') Map.empty
        [''username'' \<mapsto> ''alice'', ''password'' \<mapsto> ''wrong'']"
  let ?w = "outside_at 50 ''R2''"
  have g1: "get_username_password ?rq1 = Inr (Some ''alice'', None)"
    by (simp add: example_defs get_username_password_def)
  have g2: "get_username_password ?rq2 = Inr (Some ''bob'', Some ''secret123'')"
    by (simp add: example_defs get_username_password_def sublist_code)
  have g3: "get_username_password ?rq3 = Inr (Some ''alice'', Some ''wrong'')"
    by (simp add: example_defs get_username_password_def sublist_code)
  have a2: "''bob'' \<notin> username ` set (users db0)" by (simp add: example_defs)
  have a3: "alice \<in> set (users db0)" "username alice = ''alice''"
    "distinct (map username (users db0))"
    "\<not> check_password_hash collab0 (password_hash alice) ''wrong''"
    by (simp_all add: example_defs)
  have r1: "credentials collab0 ?w ?rq1 db0
      = (Inl (BadRequest ''missing username or password''), db0)"
    using credentials_failures[OF g1, where c = collab0 and w = ?w and s = db0] by simp
  have r2: "credentials collab0 ?w ?rq2 db0
      = (Inl (Unauthorized ''this user does not exist''), db0)"
    using credentials_failures[OF g2, where c = collab0 and w = ?w and s = db0
        and name = "''bob''" and p = "''secret123''"] a2 by simp
  have r3: "credentials collab0 ?w ?rq3 db0
      = (Inl (Unauthorized ''password does not match''), db0)"
    using credentials_failures[OF g3, where c = collab0 and w = ?w and s = db0
        and name = "''alice''" and p = "''wrong''" and u = alice] a3 by simp
  show ?thesis using g1 g2 g3 a2 a3 r1 r2 r3 by simp
qed


lemma credentials_success_response:
  assumes "fst (credentials c w rq s) = Inr resp"
  shows "\<exists>a e t. resp = send_response a e t"
  using assms
  by (auto simp: credentials_def session_begin_def credentials_inner_def Let_def
      split: prod.splits sum.splits option.splits if_splits)

lemma refresh_token_success_response:
  assumes "fst (refresh_token c w rq s) = Inr resp"
  shows "\<exists>a e t. resp = send_response a e t"
proof -
  obtain s' where "refresh_token c w rq s = (Inr resp, s')"
    using assms by (cases "refresh_token c w rq s") simp
  from refresh_token_success_state[OF this] show ?thesis by blast
qed

lemma send_response_envelope:
  "map fst (json_body (send_response a e t))
     = [''access_token'', ''token_type'', ''expires_in'', ''refresh_token'']
   \<and> map_of (json_body (send_response a e t)) ''access_token'' = Some (JString a)
   \<and> map_of (json_body (send_response a e t)) ''token_type'' = Some (JString ''bearer'')
   \<and> map_of (json_body (send_response a e t)) ''expires_in'' = Some (JInt e)
   \<and> map_of (json_body (send_response a e t)) ''refresh_token'' = Some (JString t)
   \<and> response_headers (send_response a e t) ''Cache-Control'' = Some ''no-store''
   \<and> response_headers (send_response a e t) ''Pragma'' = Some ''no-cache''"
  by (simp add: send_response_def jsonify_def)

section \<open>The token envelope\<close>

text \<open>
  C8. Every response of a successful credential exchange or refresh exchange has a body
  with exactly the four fields \<^verbatim>\<open>access_token\<close> (a string), \<^verbatim>\<open>token_type\<close> equal to
  \<^verbatim>\<open>"bearer"\<close>, \<^verbatim>\<open>expires_in\<close> (an integer) and \<^verbatim>\<open>refresh_token\<close> (a string), and the
  headers \<^verbatim>\<open>Cache-Control: no-store\<close> and \<^verbatim>\<open>Pragma: no-cache\<close>.
\<close>
theorem issuance_envelope:
  assumes "fst (credentials c w rq s) = Inr resp \<or> fst (refresh_token c w rq s) = Inr resp"
  shows "map fst (json_body resp)
           = [''access_token'', ''token_type'', ''expires_in'', ''refresh_token'']
       \<and> (\<exists>a. map_of (json_body resp) ''access_token'' = Some (JString a))
       \<and> map_of (json_body resp) ''token_type'' = Some (JString ''bearer'')
       \<and> (\<exists>e. map_of (json_body resp) ''expires_in'' = Some (JInt e))
       \<and> (\<exists>t. map_of (json_body resp) ''refresh_token'' = Some (JString t))
       \<and> response_headers resp ''Cache-Control'' = Some ''no-store''
       \<and> response_headers resp ''Pragma'' = Some ''no-cache''"
proof -
  from assms obtain a e t where "resp = send_response a e t"
    using credentials_success_response refresh_token_success_response by blast
  then show ?thesis using send_response_envelope[of a e t] by simp
qed

theorem issuance_envelope_witness:
  "fst (credentials collab0 (outside_at 50 ''R2'')
        (request_with (Some ''application/x-www-form-urlencoded'')
           [''username'' \<mapsto> ''alice'', ''password'' \<mapsto> ''secret123''] Map.empty) db0)
     = Inr (send_response ''jwt-alice'' 3600 ''R2'')
   \<and> fst (refresh_token collab0 (outside_at 50 ''R2'')
        (request_with None Map.empty [''refresh-token'' \<mapsto> ''R1'']) db0)
     = Inr (send_response ''jwt-alice'' 3600 ''R2'')
   \<and> map fst (json_body (send_response ''jwt-alice'' 3600 ''R2''))
        = [''access_token'', ''token_type'', ''expires_in'', ''refresh_token'']
   \<and> map_of (json_body (send_response ''jwt-alice'' 3600 ''R2'')) ''token_type''
        = Some (JString ''bearer'')
   \<and> response_headers (send_response ''jwt-alice'' 3600 ''R2'') ''Cache-Control''
        = Some ''no-store''
   \<and> response_headers (send_response ''jwt-alice'' 3600 ''R2'') ''Pragma''
        = Some ''no-cache''"
proof -
  let ?rq1 = "request_with (Some ''application/x-www-form-urlencoded'')
           [''username'' \<mapsto> ''alice'', ''password'' \<mapsto> ''secret123''] Map.empty"
  let ?rq2 = "request_with None Map.empty [''refresh-token'' \<mapsto> ''R1'']"
  let ?w = "outside_at 50 ''R2''"
  have h1: "fst (credentials collab0 ?w ?rq1 db0) = Inr (send_response ''jwt-alice'' 3600 ''R2'')"
    by (simp add: example_defs handler_defs)
  have h2: "fst (refresh_token collab0 ?w ?rq2 db0) = Inr (send_response ''jwt-alice'' 3600 ''R2'')"
    by (simp add: example_defs handler_defs)
  from h1 have d1: "fst (credentials collab0 ?w ?rq1 db0) = Inr (send_response ''jwt-alice'' 3600 ''R2'')
      \<or> fst (refresh_token collab0 ?w ?rq1 db0) = Inr (send_response ''jwt-alice'' 3600 ''R2'')"
    by (rule disjI1)
  from h2 have d2: "fst (credentials collab0 ?w ?rq2 db0) = Inr (send_response ''jwt-alice'' 3600 ''R2'')
      \<or> fst (refresh_token collab0 ?w ?rq2 db0) = Inr (send_response ''jwt-alice'' 3600 ''R2'')"
    by (rule disjI2)
  from issuance_envelope[OF d1] issuance_envelope[OF d2] h1 h2 show ?thesis by blast
qed

section \<open>Where the credential exchange reads its input\<close>



end
